theory Spec2Isabelle
  imports Main
begin

section \<open>Strings of the Python library\<close>

text \<open>
  A Python \<open>str\<close> is modelled as a \<^typ>\<open>string\<close> whose characters are read as code
  points below 256. Output text that holds a glyph beyond that range carries the
  glyph's UTF-8 bytes (see \<open>check_mark\<close> below). ANSI colour codes are left out of every
  printed text: class \<open>Colors\<close> only holds constants that \<open>disable_on_windows\<close> may
  blank, and no decision of the installer reads them.
\<close>

definition nl :: string where
  "nl = [CHR 0x0A]"

text \<open>\<open>str.isspace\<close> on one character, for code points below 256.\<close>

definition py_isspace :: "char \<Rightarrow> bool" where
  "py_isspace c =
     (let n = of_char c :: nat
      in (9 \<le> n \<and> n \<le> 13) \<or> (28 \<le> n \<and> n \<le> 32) \<or> n = 133 \<or> n = 160)"

text \<open>\<open>str.strip()\<close>: leading and trailing whitespace removed.\<close>

definition py_strip :: "string \<Rightarrow> string" where
  "py_strip s = rev (dropWhile py_isspace (rev (dropWhile py_isspace s)))"

text \<open>\<open>str.lower()\<close>, for code points below 256.\<close>

definition lower_char :: "char \<Rightarrow> char" where
  "lower_char c =
     (let n = of_char c :: nat
      in if (65 \<le> n \<and> n \<le> 90) \<or> (192 \<le> n \<and> n \<le> 222 \<and> n \<noteq> 215)
         then char_of (n + 32) else c)"

definition py_lower :: "string \<Rightarrow> string" where
  "py_lower s = map lower_char s"

text \<open>\<open>sep.join(parts)\<close>.\<close>

fun join_with :: "string \<Rightarrow> string list \<Rightarrow> string" where
  "join_with s [] = []"
| "join_with s [x] = x"
| "join_with s (x # y # ys) = x @ s @ join_with s (y # ys)"

text \<open>Decimal text of a non-negative integer, as an f-string formats it.\<close>

definition digit_char :: "nat \<Rightarrow> char" where
  "digit_char d = char_of (48 + d)"

fun str_of_nat :: "nat \<Rightarrow> string" where
  "str_of_nat n = (if n < 10 then [digit_char n] else str_of_nat (n div 10) @ [digit_char (n mod 10)])"

declare str_of_nat.simps [simp del]

section \<open>Paths\<close>

text \<open>
  A \<open>pathlib.Path\<close>: the separator of its flavour, its anchor (root or drive) and the
  names below the anchor. \<open>child p n\<close> is \<open>p / n\<close> for a plain name \<open>n\<close>, \<open>parent\<close> is
  \<open>Path.parent\<close> (the anchor is its own parent) and \<open>path_str\<close> is \<open>str(p)\<close>.
\<close>

record path =
  separator :: string
  anchor :: string
  names :: "string list"

definition child :: "path \<Rightarrow> string \<Rightarrow> path" where
  "child p n = p\<lparr>names := names p @ [n]\<rparr>"

definition parent :: "path \<Rightarrow> path" where
  "parent p = p\<lparr>names := butlast (names p)\<rparr>"

definition path_str :: "path \<Rightarrow> string" where
  "path_str p = anchor p @ join_with (separator p) (names p)"

text \<open>\<open>q\<close> is \<open>p\<close> or lies below it: what \<open>shutil.rmtree p\<close> removes.\<close>

definition below :: "path \<Rightarrow> path \<Rightarrow> bool" where
  "below p q \<longleftrightarrow>
     separator q = separator p \<and> anchor q = anchor p \<and>
     take (length (names p)) (names q) = names p"

section \<open>Platform resolver (class CrossPlatformInstaller, install.py)\<close>

text \<open>The fields \<open>__init__\<close> sets.\<close>

record installer =
  script_dir :: path
  project_root :: path
  venv_path :: path
  os_type :: string

definition get_python_executable :: "installer \<Rightarrow> string" where
  "get_python_executable self =
     (if os_type self = ''Windows'' then ''python'' else ''python3'')"

definition get_venv_activation_command :: "installer \<Rightarrow> string" where
  "get_venv_activation_command self =
     (if os_type self = ''Windows''
      then path_str (child (child (venv_path self) ''Scripts'') ''activate.bat'')
      else ''source '' @ path_str (child (child (venv_path self) ''bin'') ''activate''))"

definition get_venv_python :: "installer \<Rightarrow> path" where
  "get_venv_python self =
     (if os_type self = ''Windows''
      then child (child (venv_path self) ''Scripts'') ''python.exe''
      else child (child (venv_path self) ''bin'') ''python'')"

definition get_venv_pip :: "installer \<Rightarrow> path" where
  "get_venv_pip self =
     (if os_type self = ''Windows''
      then child (child (venv_path self) ''Scripts'') ''pip.exe''
      else child (child (venv_path self) ''bin'') ''pip'')"

section \<open>The environment of a run\<close>

text \<open>
  What a run does to the outside is recorded as a trace of events: a line printed on the
  console (tagged by the printing routine: \<open>print\<close>, \<open>print_status\<close>,
  \<open>print_warning\<close>, \<open>print_error\<close>), a prompt answered from standard input, a
  recursive deletion that was attempted, an external command, and the usage and error
  message the argument parser writes on standard error when it rejects a command line
  (its text, which names the options in the order they were given, is not modelled).
\<close>

datatype console_line =
  PlainLine string | StatusLine string | WarningLine string | ErrorLine string

datatype event =
  Print console_line | Input string | Rmtree path | Run "string list" | ParserError

text \<open>
  How an external command ends under \<open>subprocess.run(..., check=True)\<close>: exit status 0
  with its captured output, a non-zero exit status (raised as \<open>CalledProcessError\<close>; the
  text is \<open>str(e)\<close>), or the command could not be started (\<open>OSError\<close>).
\<close>

datatype proc_outcome = Exit0 string | ExitNonZero string | NotStarted string

datatype exn = CalledProcessError string | OSError string | EOFError | SystemExit int

text \<open>\<open>except Exception\<close> catches every exception but \<open>SystemExit\<close>.\<close>

fun is_Exception :: "exn \<Rightarrow> bool" where
  "is_Exception (SystemExit n) = False"
| "is_Exception e = True"

fun exn_str :: "exn \<Rightarrow> string" where
  "exn_str (CalledProcessError m) = m"
| "exn_str (OSError m) = m"
| "exn_str EOFError = ''EOF when reading a line''"
| "exn_str (SystemExit n) = (if n < 0 then ''-'' else []) @ str_of_nat (nat \<bar>n\<bar>)"

text \<open>
  The world a run sees and changes: which paths exist, how each external command ends
  and what it does to the file system (nothing is assumed of the external tools),
  whether a recursive deletion raises (\<open>None\<close>: it succeeds; \<open>Some (m, fs)\<close>: it raises
  \<open>OSError\<close> with text \<open>m\<close>, as on a symbolic link, a regular file or a missing
  permission, and leaves the file system \<open>fs\<close>), the
  lines waiting on standard input, the interpreter's \<open>sys.version_info\<close> (major, minor,
  micro), \<open>platform.system()\<close> and \<open>platform.release()\<close>, the absolute path of \<open>install.py\<close>, whether
  \<open>import tkinter\<close> succeeds, and the trace so far.
\<close>

record world =
  files :: "path \<Rightarrow> bool"
  exec :: "string list \<Rightarrow> (path \<Rightarrow> bool) \<Rightarrow> proc_outcome \<times> (path \<Rightarrow> bool)"
  rmtree_error :: "path \<Rightarrow> (path \<Rightarrow> bool) \<Rightarrow> (string \<times> (path \<Rightarrow> bool)) option"
  stdin :: "string list"
  version_info :: "nat \<times> nat \<times> nat"
  platform_system :: string
  platform_release :: string
  install_py :: path
  tkinter_available :: bool
  trace :: "event list"

text \<open>
  \<open>CrossPlatformInstaller()\<close>: \<open>__init__\<close> reads the absolute path of its own file and
  \<open>platform.system()\<close>.
\<close>

definition CrossPlatformInstaller :: "world \<Rightarrow> installer" where
  "CrossPlatformInstaller w =
     (let sd = parent (install_py w); pr = parent sd
      in \<lparr>script_dir = sd, project_root = pr, venv_path = child pr ''venv'',
          os_type = platform_system w\<rparr>)"

definition emit :: "event \<Rightarrow> world \<Rightarrow> world" where
  "emit e w = w\<lparr>trace := trace w @ [e]\<rparr>"

definition print_plain :: "string \<Rightarrow> world \<Rightarrow> world" where
  "print_plain m w = emit (Print (PlainLine m)) w"

definition print_status :: "string \<Rightarrow> world \<Rightarrow> world" where
  "print_status m w = emit (Print (StatusLine m)) w"

definition print_warning :: "string \<Rightarrow> world \<Rightarrow> world" where
  "print_warning m w = emit (Print (WarningLine m)) w"

definition print_error :: "string \<Rightarrow> world \<Rightarrow> world" where
  "print_error m w = emit (Print (ErrorLine m)) w"

text \<open>\<open>input(prompt)\<close>: the next line of standard input, \<open>EOFError\<close> when there is none.\<close>

definition py_input :: "string \<Rightarrow> world \<Rightarrow> (exn + string) \<times> world" where
  "py_input prompt w =
     (case stdin w of
        [] \<Rightarrow> (Inl EOFError, emit (Input prompt) w)
      | l # ls \<Rightarrow> (Inr l, emit (Input prompt) (w\<lparr>stdin := ls\<rparr>)))"

text \<open>
  \<open>shutil.rmtree(p)\<close>: when it succeeds, \<open>p\<close> and everything below it is gone
  afterwards; otherwise it raises \<open>OSError\<close>.
\<close>

definition rmtree :: "path \<Rightarrow> world \<Rightarrow> (exn + unit) \<times> world" where
  "rmtree p w =
     (case rmtree_error w p (files w) of
        None \<Rightarrow> (Inr (), emit (Rmtree p) (w\<lparr>files := (\<lambda>q. files w q \<and> \<not> below p q)\<rparr>))
      | Some (m, fs') \<Rightarrow> (Inl (OSError m), emit (Rmtree p) (w\<lparr>files := fs'\<rparr>)))"

text \<open>\<open>subprocess.run(argv, check=True)\<close>: the captured output, or the exception raised.\<close>

definition subprocess_run :: "string list \<Rightarrow> world \<Rightarrow> (exn + string) \<times> world" where
  "subprocess_run argv w =
     (let (out, fs') = exec w argv (files w);
          w' = emit (Run argv) (w\<lparr>files := fs'\<rparr>)
      in case out of
           Exit0 s \<Rightarrow> (Inr s, w')
         | ExitNonZero m \<Rightarrow> (Inl (CalledProcessError m), w')
         | NotStarted m \<Rightarrow> (Inl (OSError m), w'))"

text \<open>
  Read off a trace: the external commands, the events that touch the file system or
  start a process, the warnings and the errors printed.
\<close>

fun commands_of :: "event list \<Rightarrow> string list list" where
  "commands_of [] = []"
| "commands_of (Run argv # es) = argv # commands_of es"
| "commands_of (e # es) = commands_of es"

fun side_effects_of :: "event list \<Rightarrow> event list" where
  "side_effects_of [] = []"
| "side_effects_of (Rmtree p # es) = Rmtree p # side_effects_of es"
| "side_effects_of (Run argv # es) = Run argv # side_effects_of es"
| "side_effects_of (e # es) = side_effects_of es"

fun warnings_of :: "event list \<Rightarrow> string list" where
  "warnings_of [] = []"
| "warnings_of (Print (WarningLine m) # es) = m # warnings_of es"
| "warnings_of (e # es) = warnings_of es"

fun errors_of :: "event list \<Rightarrow> string list" where
  "errors_of [] = []"
| "errors_of (Print (ErrorLine m) # es) = m # errors_of es"
| "errors_of (e # es) = errors_of es"

section \<open>Installer core (install.py)\<close>

text \<open>Comparison of tuples of integers: lexicographic, a proper prefix being smaller.\<close>

fun tuple_lt :: "nat list \<Rightarrow> nat list \<Rightarrow> bool" where
  "tuple_lt [] [] = False"
| "tuple_lt [] (y # ys) = True"
| "tuple_lt (x # xs) [] = False"
| "tuple_lt (x # xs) (y # ys) = (if x = y then tuple_lt xs ys else x < y)"

definition version_text :: "nat \<times> nat \<times> nat \<Rightarrow> string" where
  "version_text v =
     (case v of (major, minor, micro) \<Rightarrow>
        str_of_nat major @ ''.'' @ str_of_nat minor @ ''.'' @ str_of_nat micro)"

definition version_too_old :: "nat \<times> nat \<times> nat \<Rightarrow> bool" where
  "version_too_old v = (case v of (major, minor, micro) \<Rightarrow> tuple_lt [major, minor, micro] [3, 8])"

definition bar :: string where
  "bar = replicate 68 (CHR ''='')"

text \<open>The glyph U+2713 of the success lines, as UTF-8.\<close>

definition check_mark :: string where
  "check_mark = [CHR 0xE2, CHR 0x9C, CHR 0x93]"

definition print_header :: "installer \<Rightarrow> world \<Rightarrow> world" where
  "print_header self w =
     (let w1 = print_plain (nl @ bar) w;
          w2 = print_plain ''CODITECT Framework Cross-Platform Installation'' w1;
          w3 = print_plain bar w2;
          w4 = print_plain (nl @ ''Platform: '' @ os_type self) w3
      in print_plain [] w4)"

definition check_python_version :: "installer \<Rightarrow> world \<Rightarrow> (bool \<times> string) \<times> world" where
  "check_python_version self w =
     (let w1 = print_plain ''Checking Python version...'' w
      in if version_too_old (version_info w1)
         then ((False, ''Python 3.8+ required (found '' @ version_text (version_info w1) @ '')''), w1)
         else ((True, version_text (version_info w1)),
               print_status (''Python '' @ version_text (version_info w1) @ '' detected'') w1))"

text \<open>The four external commands, as the argument lists given to \<open>subprocess.run\<close>.\<close>

definition venv_command :: "installer \<Rightarrow> string list" where
  "venv_command self = [get_python_executable self, ''-m'', ''venv'', path_str (venv_path self)]"

definition pip_upgrade_command :: "installer \<Rightarrow> string list" where
  "pip_upgrade_command self =
     [path_str (get_venv_python self), ''-m'', ''pip'', ''install'', ''--upgrade'', ''pip'']"

definition requirements_file :: "installer \<Rightarrow> path" where
  "requirements_file self = child (project_root self) ''requirements.txt''"

definition manifest_install_command :: "installer \<Rightarrow> string list" where
  "manifest_install_command self =
     [path_str (get_venv_pip self), ''install'', ''-r'', path_str (requirements_file self)]"

definition import_probe_command :: "installer \<Rightarrow> string list" where
  "import_probe_command self =
     [path_str (get_venv_python self), ''-c'', ''import git; print(git.__version__)'']"

text \<open>
  The \<open>try\<close> block of \<open>create_venv\<close>: the environment-creation command. The deletions
  of \<open>create_venv\<close> stand before this block, so an exception of \<open>shutil.rmtree\<close>
  leaves \<open>create_venv\<close> without the command being started.
\<close>

definition create_venv_command :: "installer \<Rightarrow> world \<Rightarrow> (exn + bool) \<times> world" where
  "create_venv_command self w =
     (case subprocess_run (venv_command self) w of
        (Inr out, w1) \<Rightarrow>
          (Inr True, print_status (''Virtual environment created at '' @ path_str (venv_path self)) w1)
      | (Inl (CalledProcessError m), w1) \<Rightarrow>
          (Inr False, print_error (''Failed to create virtual environment: '' @ m) w1)
      | (Inl e, w1) \<Rightarrow> (Inl e, w1))"

definition create_venv :: "installer \<Rightarrow> bool \<Rightarrow> world \<Rightarrow> (exn + bool) \<times> world" where
  "create_venv self force_recreate w =
     (let w1 = print_plain (nl @ ''Creating virtual environment...'' @ nl) w
      in if files w1 (venv_path self)
         then if force_recreate
              then let w2 = print_warning (''Removing existing venv at '' @ path_str (venv_path self)) w1
                   in (case rmtree (venv_path self) w2 of
                         (Inl e, w3) \<Rightarrow> (Inl e, w3)
                       | (Inr u, w3) \<Rightarrow> create_venv_command self w3)
              else let w2 = print_warning
                              (''Virtual environment already exists at '' @ path_str (venv_path self)) w1
                   in case py_input ''Do you want to recreate it? (y/N): '' w2 of
                        (Inl e, w3) \<Rightarrow> (Inl e, w3)
                      | (Inr response, w3) \<Rightarrow>
                          if py_lower (py_strip response) = ''y''
                          then let w4 = print_plain ''Removing existing venv...'' w3
                               in (case rmtree (venv_path self) w4 of
                                     (Inl e, w5) \<Rightarrow> (Inl e, w5)
                                   | (Inr u, w5) \<Rightarrow> create_venv_command self w5)
                          else (Inr True, print_status ''Using existing virtual environment'' w3)
         else create_venv_command self w1)"

text \<open>
  The optional import probe of \<open>install_dependencies\<close> (its inner \<open>try\<close> block): a
  non-zero exit is caught there and printed as a warning.
\<close>

definition verify_gitpython :: "installer \<Rightarrow> world \<Rightarrow> (exn + bool) \<times> world" where
  "verify_gitpython self w =
     (case subprocess_run (import_probe_command self) w of
        (Inr out, w1) \<Rightarrow>
          (Inr True,
           print_status (''GitPython '' @ py_strip out @ '' installed (80x faster git operations)'') w1)
      | (Inl (CalledProcessError m), w1) \<Rightarrow>
          (Inr True,
           print_warning ''GitPython not installed - git operations will use subprocess fallback'' w1)
      | (Inl e, w1) \<Rightarrow> (Inl e, w1))"

text \<open>
  The outer \<open>except subprocess.CalledProcessError\<close> of \<open>install_dependencies\<close>: a
  non-zero exit of the upgrade or of the manifest install ends the phase with
  \<open>False\<close>; any other exception leaves the function.
\<close>

definition deps_failed :: "exn \<Rightarrow> world \<Rightarrow> (exn + bool) \<times> world" where
  "deps_failed e w =
     (case e of
        CalledProcessError m \<Rightarrow> (Inr False, print_error (''Dependency installation failed: '' @ m) w)
      | _ \<Rightarrow> (Inl e, w))"

definition install_dependencies :: "installer \<Rightarrow> world \<Rightarrow> (exn + bool) \<times> world" where
  "install_dependencies self w =
     (let w1 = print_plain (nl @ ''Installing dependencies...'' @ nl) w
      in if \<not> files w1 (venv_path self)
         then (Inr False,
               print_error ''Virtual environment not found. Run without --deps-only first.'' w1)
         else
           let w2 = print_plain ''Upgrading pip...'' w1
           in case subprocess_run (pip_upgrade_command self) w2 of
                (Inl e, w3) \<Rightarrow> deps_failed e w3
              | (Inr out, w3) \<Rightarrow>
                  let w4 = print_status ''pip upgraded'' w3
                  in if files w4 (requirements_file self)
                     then let w5 = print_plain ''Installing from requirements.txt...'' w4
                          in case subprocess_run (manifest_install_command self) w5 of
                               (Inl e, w6) \<Rightarrow> deps_failed e w6
                             | (Inr out2, w6) \<Rightarrow>
                                 verify_gitpython self
                                   (print_status ''Dependencies installed from requirements.txt'' w6)
                     else (Inr True,
                           print_warning
                             ''requirements.txt not found, skipping dependency installation'' w4))"

definition print_next_steps :: "installer \<Rightarrow> world \<Rightarrow> world" where
  "print_next_steps self w =
     (let w1 = print_plain (nl @ bar) w;
          w2 = print_plain (check_mark @ '' Installation Complete!'') w1;
          w3 = print_plain (bar @ nl) w2;
          w4 = print_plain (''Next steps:'' @ nl) w3;
          w5 = print_plain ''1. Activate the virtual environment:'' w4;
          activation_cmd = get_venv_activation_command self;
          w6 = print_plain (''   '' @ activation_cmd) w5;
          w7 = print_plain (nl @ ''2. Run tests to verify installation:'') w6;
          venv_python = (if os_type self = ''Windows'' then ''python'' else ''python3'');
          w8 = print_plain
                 (''   '' @ venv_python @ '' tests/core/test_memory_context_integration.py'') w7;
          w9 = print_plain
                 (''   '' @ venv_python @ '' tests/core/test_performance_benchmarks.py'') w8;
          w10 = print_plain (nl @ ''3. Deactivate when done:'') w9;
          w11 = print_plain (''   deactivate'' @ nl) w10;
          w12 = print_plain ''Performance tip:'' w11;
          w13 = print_plain
                  ''  GitPython provides 80x faster git operations compared to subprocess.'' w12
      in print_plain
           (''  All git operations in MEMORY-CONTEXT system will automatically use GitPython.'' @ nl)
           w13)"

text \<open>
  \<open>run\<close>: the exit code it returns, or the exception that leaves it. \<open>run_deps\<close> is
  its second half, from the dependency phase on.
\<close>

definition run_deps :: "installer \<Rightarrow> bool \<Rightarrow> world \<Rightarrow> (exn + int) \<times> world" where
  "run_deps self venv_only w =
     (if \<not> venv_only
      then case install_dependencies self w of
             (Inl e, w1) \<Rightarrow> (Inl e, w1)
           | (Inr ok, w1) \<Rightarrow>
               if \<not> ok then (Inr 1, w1) else (Inr 0, print_next_steps self w1)
      else (Inr 0, print_next_steps self w))"

definition run :: "installer \<Rightarrow> bool \<Rightarrow> bool \<Rightarrow> world \<Rightarrow> (exn + int) \<times> world" where
  "run self venv_only deps_only w =
     (let w1 = print_header self w
      in case check_python_version self w1 of
           ((success, message), w2) \<Rightarrow>
             if \<not> success then (Inr 1, print_error message w2)
             else if \<not> deps_only
                  then case create_venv self False w2 of
                         (Inl e, w3) \<Rightarrow> (Inl e, w3)
                       | (Inr ok, w3) \<Rightarrow>
                           if \<not> ok then (Inr 1, w3) else run_deps self venv_only w3
                  else run_deps self venv_only w2)"

section \<open>CLI front-end (install.py)\<close>

text \<open>
  The flags after \<open>parser.parse_args()\<close>; the parser of \<open>install.py\<close> declares the two
  options independently and accepts every combination of them.
\<close>

record cli_args =
  venv_only :: bool
  deps_only :: bool

definition main :: "cli_args \<Rightarrow> world \<Rightarrow> (exn + int) \<times> world" where
  "main args w =
     (if venv_only args \<and> deps_only args
      then (Inr 1, print_plain ''Error: Cannot use --venv-only and --deps-only together'' w)
      else run (CrossPlatformInstaller w)
             (venv_only args) (deps_only args) w)"

text \<open>
  The exit code of the process: \<open>sys.exit(n)\<close> for a returned or raised code, 1 for
  an exception that nothing caught.
\<close>

definition exit_code_of :: "exn + int \<Rightarrow> int" where
  "exit_code_of r = (case r of Inr n \<Rightarrow> n | Inl (SystemExit n) \<Rightarrow> n | Inl e \<Rightarrow> 1)"

definition install_script :: "cli_args \<Rightarrow> world \<Rightarrow> int \<times> world" where
  "install_script args w = (case main args w of (r, w') \<Rightarrow> (exit_code_of r, w'))"

section \<open>GUI front-end (install_gui.py)\<close>

text \<open>A progress message: the tag and the text the worker puts on the queue.\<close>

type_synonym message = "string \<times> string"

text \<open>
  The \<open>except Exception\<close> of the worker: one error message; an exception it does not
  catch ends the thread with nothing more put on the queue.
\<close>

definition worker_exception :: "exn \<Rightarrow> message list" where
  "worker_exception e =
     (if is_Exception e then [(''error'', ''Installation failed: '' @ exn_str e)] else [])"

text \<open>\<open>_run_installation\<close>: the messages put on the queue, in order, and the world left.\<close>

definition run_installation :: "world \<Rightarrow> message list \<times> world" where
  "run_installation w =
     (let q1 = [(''log'', ''Starting installation...''), (''log'', []),
                (''progress'', ''Checking Python version...''),
                (''log'', ''Checking Python version...'')]
      in if version_too_old (version_info w)
         then (q1 @ [(''error'', ''Python 3.8+ required (found '' @ version_text (version_info w) @ '')'')], w)
         else
           let q2 = q1 @ [(''log'', check_mark @ '' Python version OK''), (''log'', []),
                          (''progress'', ''Creating virtual environment...''),
                          (''log'', ''Creating virtual environment...'')];
               installer = CrossPlatformInstaller w
           in case create_venv installer False w of
                (Inl e, w1) \<Rightarrow> (q2 @ worker_exception e, w1)
              | (Inr ok, w1) \<Rightarrow>
                  if \<not> ok then (q2 @ [(''error'', ''Failed to create virtual environment'')], w1)
                  else
                    let q3 = q2 @ [(''log'', check_mark @ '' Virtual environment created''),
                                   (''log'', []),
                                   (''progress'', ''Installing dependencies...''),
                                   (''log'', ''Installing dependencies...'')]
                    in (case install_dependencies installer w1 of
                          (Inl e, w2) \<Rightarrow> (q3 @ worker_exception e, w2)
                        | (Inr ok2, w2) \<Rightarrow>
                            if \<not> ok2 then (q3 @ [(''error'', ''Failed to install dependencies'')], w2)
                            else (q3 @ [(''log'', check_mark @ '' Dependencies installed''),
                                        (''log'', []),
                                        (''success'', ''Installation complete!'')], w2)))"

text \<open>
  The state of class \<open>InstallerGUI\<close> that its handlers read and write: the two flags,
  the lines of the log view, the progress label and bar, the action button, the modal
  dialogs shown so far (kind, title, text), the queue and the number of worker threads
  started.
\<close>

record installer_gui =
  gui_os_type :: string
  installing :: bool
  installation_complete :: bool
  log_text :: "string list"
  progress_label :: string
  progress_bar_running :: bool
  progress_bar_mode :: string
  progress_bar_value :: nat
  install_button_text :: string
  install_button_enabled :: bool
  install_button_bg :: string
  dialogs :: "(string \<times> string \<times> string) list"
  message_queue :: "message list"
  threads_started :: nat

text \<open>The state \<open>__init__\<close> and \<open>_create_ui\<close> leave.\<close>

definition InstallerGUI :: "world \<Rightarrow> installer_gui" where
  "InstallerGUI w =
     \<lparr>gui_os_type = platform_system w, installing = False, installation_complete = False,
      log_text =
        [''Welcome to the CODITECT Framework Installer!'',
         ''Detected platform: '' @ platform_system w @ '' '' @ platform_release w,
         ''Python version: '' @ version_text (version_info w),
         [],
         ''Click '' @ [CHR 0x27] @ ''Install'' @ [CHR 0x27] @ '' to begin setup.''],
      progress_label = ''Ready to install'', progress_bar_running = False,
      progress_bar_mode = ''indeterminate'', progress_bar_value = 0,
      install_button_text = ''Install'', install_button_enabled = True,
      install_button_bg = ''#2563eb'', dialogs = [], message_queue = [],
      threads_started = 0\<rparr>"

definition log_message :: "string \<Rightarrow> installer_gui \<Rightarrow> installer_gui" where
  "log_message m ui = ui\<lparr>log_text := log_text ui @ [m]\<rparr>"

definition update_progress :: "string \<Rightarrow> installer_gui \<Rightarrow> installer_gui" where
  "update_progress m ui = ui\<lparr>progress_label := m\<rparr>"

definition start_installation :: "installer_gui \<Rightarrow> installer_gui" where
  "start_installation ui =
     (if installing ui then ui
      else ui\<lparr>install_button_enabled := False, install_button_bg := ''#9ca3af'',
              installing := True, installation_complete := False,
              log_text := [], progress_bar_running := True,
              threads_started := threads_started ui + 1\<rparr>)"

definition installation_success :: "world \<Rightarrow> string \<Rightarrow> installer_gui \<Rightarrow> installer_gui" where
  "installation_success w m ui =
     (let u1 = ui\<lparr>installing := False, installation_complete := True,
                   progress_bar_running := False, progress_bar_mode := ''determinate'',
                   progress_bar_value := 100\<rparr>;
          u2 = update_progress m u1;
          installer = CrossPlatformInstaller w;
          activation_cmd = get_venv_activation_command installer;
          u3 = foldl (\<lambda>u l. log_message l u) u2
                 [[], bar, check_mark @ '' Installation Complete!'', bar, [],
                  ''Next steps:'', [], ''1. Activate the virtual environment:'',
                  ''   '' @ activation_cmd, [], ''2. Run tests to verify installation:'',
                  (if gui_os_type ui = ''Windows''
                   then ''   python tests/core/test_memory_context_integration.py''
                   else ''   python3 tests/core/test_memory_context_integration.py''),
                  [], ''3. Deactivate when done:'', ''   deactivate''];
          u4 = u3\<lparr>dialogs := dialogs u3 @
                  [(''info'', ''Installation Complete'',
                    ''CODITECT Framework has been installed successfully!'' @ nl @ nl @
                    ''See the log for next steps.'')]\<rparr>
      in u4\<lparr>install_button_text := ''Reinstall'', install_button_enabled := True,
             install_button_bg := ''#2563eb''\<rparr>)"

text \<open>The glyph U+2717 of the error block, as UTF-8.\<close>

definition cross_mark :: string where
  "cross_mark = [CHR 0xE2, CHR 0x9C, CHR 0x97]"

definition installation_error :: "string \<Rightarrow> installer_gui \<Rightarrow> installer_gui" where
  "installation_error m ui =
     (let u1 = ui\<lparr>installing := False, progress_bar_running := False\<rparr>;
          u2 = update_progress ''Installation failed'' u1;
          u3 = foldl (\<lambda>u l. log_message l u) u2
                 [[], bar, cross_mark @ '' Error: '' @ m, bar];
          u4 = u3\<lparr>dialogs := dialogs u3 @
                  [(''error'', ''Installation Failed'',
                    ''An error occurred during installation:'' @ nl @ nl @ m @ nl @ nl @
                    ''Please check the log for details.'')]\<rparr>
      in u4\<lparr>install_button_enabled := True, install_button_bg := ''#2563eb''\<rparr>)"

text \<open>One turn of the loop of \<open>_process_messages\<close>: the \<open>if\<close>/\<open>elif\<close> chain on the tag.\<close>

definition handle_message :: "world \<Rightarrow> message \<Rightarrow> installer_gui \<Rightarrow> installer_gui" where
  "handle_message w msg ui =
     (case msg of (message_type, m) \<Rightarrow>
        if message_type = ''log'' then log_message m ui
        else if message_type = ''progress'' then update_progress m ui
        else if message_type = ''success'' then installation_success w m ui
        else if message_type = ''error'' then installation_error m ui
        else ui)"

text \<open>The loop itself: messages are taken from the queue in the order they were put.\<close>

fun drain :: "world \<Rightarrow> message list \<Rightarrow> installer_gui \<Rightarrow> installer_gui" where
  "drain w [] ui = ui"
| "drain w (msg # msgs) ui = drain w msgs (handle_message w msg ui)"

definition process_messages :: "world \<Rightarrow> installer_gui \<Rightarrow> installer_gui" where
  "process_messages w ui = drain w (message_queue ui) (ui\<lparr>message_queue := []\<rparr>)"

text \<open>The worker's \<open>message_queue.put\<close>.\<close>

definition put_message :: "message \<Rightarrow> installer_gui \<Rightarrow> installer_gui" where
  "put_message msg ui = ui\<lparr>message_queue := message_queue ui @ [msg]\<rparr>"

text \<open>
  The order of a successful run as the specification's GUI scenario words it: a log
  message, then a progress-text update, then any number of log messages, then one
  success message at the end.
\<close>

definition scenario_order :: "string list \<Rightarrow> bool" where
  "scenario_order tags =
     (case tags of
        a # b # rest \<Rightarrow>
          a = ''log'' \<and> b = ''progress'' \<and> rest \<noteq> [] \<and>
          list_all (\<lambda>t. t = ''log'') (butlast rest) \<and> last rest = ''success''
      | _ \<Rightarrow> False)"

text \<open>
  The order the worker's code gives: two log messages, then three times a progress-text
  update followed by three log messages, then the success message.
\<close>

definition success_order :: "string list" where
  "success_order =
     [''log'', ''log''] @ concat (replicate 3 [''progress'', ''log'', ''log'', ''log'']) @
     [''success'']"

section \<open>Launcher (launch.py)\<close>












section \<open>Example worlds\<close>

text \<open>
  Concrete worlds on which the theorems below are instantiated. The script lies at
  \<open>/srv/coditect/scripts/install.py\<close> on a Linux host, so the project root is
  \<open>/srv/coditect\<close>. \<open>demo_world present failing version answers\<close> has the paths
  \<open>present\<close>, the interpreter version \<open>version\<close> and the lines \<open>answers\<close> on standard
  input; a command listed in \<open>failing\<close> exits with a non-zero status, the
  environment-creation command creates the environment directory, and every other
  command exits with status 0 and prints a version number. Deletions succeed, except in
  \<open>demo_symlinked w\<close>, where the environment directory is a symbolic link and
  \<open>shutil.rmtree\<close> refuses it.
\<close>

definition demo_script :: path where
  "demo_script =
     \<lparr>separator = ''/'', anchor = ''/'', names = [''srv'', ''coditect'', ''scripts'', ''install.py'']\<rparr>"

definition demo_root :: path where
  "demo_root = \<lparr>separator = ''/'', anchor = ''/'', names = [''srv'', ''coditect'']\<rparr>"

definition demo_venv :: path where
  "demo_venv = child demo_root ''venv''"

definition demo_manifest :: path where
  "demo_manifest = child demo_root ''requirements.txt''"

definition demo_installer :: installer where
  "demo_installer =
     \<lparr>script_dir = child demo_root ''scripts'', project_root = demo_root,
      venv_path = demo_venv, os_type = ''Linux''\<rparr>"

definition demo_exec ::
  "string list list \<Rightarrow> string list \<Rightarrow> (path \<Rightarrow> bool) \<Rightarrow> proc_outcome \<times> (path \<Rightarrow> bool)" where
  "demo_exec failing argv fs =
     (if argv \<in> set failing then (ExitNonZero ''returned non-zero exit status 1.'', fs)
      else if argv = venv_command demo_installer then (Exit0 [], (\<lambda>q. fs q \<or> q = demo_venv))
      else (Exit0 (''3.1.43'' @ nl), fs))"

definition demo_world ::
  "path list \<Rightarrow> string list list \<Rightarrow> nat \<times> nat \<times> nat \<Rightarrow> string list \<Rightarrow> world" where
  "demo_world present failing version answers =
     \<lparr>files = (\<lambda>q. q \<in> set present), exec = demo_exec failing,
      rmtree_error = (\<lambda>p fs. None), stdin = answers,
      version_info = version, platform_system = ''Linux'',
      platform_release = ''6.8.0'', install_py = demo_script,
      tkinter_available = True, trace = []\<rparr>"

definition demo_symlinked :: "world \<Rightarrow> world" where
  "demo_symlinked w =
     w\<lparr>rmtree_error := (\<lambda>p fs. Some (''Cannot call rmtree on a symbolic link'', fs))\<rparr>"

section \<open>Properties of the platform resolver\<close>

lemma parent_child: "parent (child p n) = p"
  by (simp add: parent_def child_def)

text \<open>
  Claim C7. For every operating-system name the four outputs of the resolver are
  determined by the name alone: the name \<open>Windows\<close> gives the \<open>Scripts\<close> convention and
  every other name, known or not, the Unix one. The interpreter and the package
  installer of the environment lie in one directory, and the activation instruction is
  the text of the activation script in that same directory (after \<open>source\<close> on Unix).
\<close>

theorem platform_resolver_consistent:
  "get_python_executable self = (if os_type self = ''Windows'' then ''python'' else ''python3'')
   \<and> parent (get_venv_python self) =
       child (venv_path self) (if os_type self = ''Windows'' then ''Scripts'' else ''bin'')
   \<and> get_venv_python self =
       child (parent (get_venv_python self))
         (if os_type self = ''Windows'' then ''python.exe'' else ''python'')
   \<and> get_venv_pip self =
       child (parent (get_venv_python self))
         (if os_type self = ''Windows'' then ''pip.exe'' else ''pip'')
   \<and> get_venv_activation_command self =
       (if os_type self = ''Windows'' then [] else ''source '') @
       path_str (child (parent (get_venv_python self))
         (if os_type self = ''Windows'' then ''activate.bat'' else ''activate''))"
  by (simp add: get_python_executable_def get_venv_python_def get_venv_pip_def
      get_venv_activation_command_def parent_child)

section \<open>Traces and the example worlds\<close>

lemma commands_of_append [simp]: "commands_of (xs @ ys) = commands_of xs @ commands_of ys"
  by (induction xs rule: commands_of.induct) simp_all

lemma side_effects_of_append [simp]:
  "side_effects_of (xs @ ys) = side_effects_of xs @ side_effects_of ys"
  by (induction xs rule: side_effects_of.induct) simp_all

lemma warnings_of_append [simp]: "warnings_of (xs @ ys) = warnings_of xs @ warnings_of ys"
  by (induction xs rule: warnings_of.induct) simp_all

lemma errors_of_append [simp]: "errors_of (xs @ ys) = errors_of xs @ errors_of ys"
  by (induction xs rule: errors_of.induct) simp_all

lemma subprocess_run_eq:
  "subprocess_run argv w =
     (case fst (exec w argv (files w)) of
        Exit0 s \<Rightarrow> Inr s
      | ExitNonZero m \<Rightarrow> Inl (CalledProcessError m)
      | NotStarted m \<Rightarrow> Inl (OSError m),
      w\<lparr>files := snd (exec w argv (files w)), trace := trace w @ [Run argv]\<rparr>)"
  by (simp add: subprocess_run_def emit_def case_prod_beta split: proc_outcome.splits)

lemma demo_installer_eq: "CrossPlatformInstaller (demo_world present failing version answers) = demo_installer"
  by (simp add: CrossPlatformInstaller_def demo_world_def demo_installer_def demo_script_def
      demo_root_def demo_venv_def parent_def child_def)

lemma demo_world_sel [simp]:
  "files (demo_world present failing version answers) = (\<lambda>q. q \<in> set present)"
  "exec (demo_world present failing version answers) = demo_exec failing"
  "stdin (demo_world present failing version answers) = answers"
  "version_info (demo_world present failing version answers) = version"
  "trace (demo_world present failing version answers) = []"
  by (simp_all add: demo_world_def)

lemma demo_symlinked_sel [simp]:
  "files (demo_symlinked w) = files w"
  "exec (demo_symlinked w) = exec w"
  "stdin (demo_symlinked w) = stdin w"
  "version_info (demo_symlinked w) = version_info w"
  "trace (demo_symlinked w) = trace w"
  "rmtree_error (demo_symlinked w) =
     (\<lambda>p fs. Some (''Cannot call rmtree on a symbolic link'', fs))"
  by (simp_all add: demo_symlinked_def)

lemma demo_venv_path [simp]: "venv_path demo_installer = demo_venv"
  by (simp add: demo_installer_def)

lemmas demo_simps =
  demo_world_def demo_exec_def demo_installer_def demo_venv_def demo_manifest_def demo_root_def
  demo_script_def child_def parent_def path_str_def venv_command_def pip_upgrade_command_def
  manifest_install_command_def import_probe_command_def requirements_file_def
  get_python_executable_def get_venv_python_def get_venv_pip_def

lemma version_text_379: "version_text (3, 7, 9) = ''3.7.9''"
  by code_simp

lemma answer_n: "py_lower (py_strip ''n'') \<noteq> ''y''"
  by code_simp

lemma answer_yes: "py_lower (py_strip ''yes'') \<noteq> ''y''"
  by code_simp

lemma answer_empty: "py_lower (py_strip []) \<noteq> ''y''"
  by code_simp

lemma answer_Y: "py_lower (py_strip '' Y '') = ''y''"
  by code_simp

section \<open>The version check\<close>

lemma print_header_eq:
  "print_header self w =
     w\<lparr>trace := trace w @ map Print
        [PlainLine (nl @ bar), PlainLine ''CODITECT Framework Cross-Platform Installation'',
         PlainLine bar, PlainLine (nl @ ''Platform: '' @ os_type self), PlainLine []]\<rparr>"
  by (simp add: print_header_def print_plain_def emit_def Let_def)

lemma check_python_version_eq:
  "check_python_version self w =
     (if version_too_old (version_info w)
      then ((False, ''Python 3.8+ required (found '' @ version_text (version_info w) @ '')''),
            w\<lparr>trace := trace w @ [Print (PlainLine ''Checking Python version...'')]\<rparr>)
      else ((True, version_text (version_info w)),
            w\<lparr>trace := trace w @ [Print (PlainLine ''Checking Python version...''),
               Print (StatusLine (''Python '' @ version_text (version_info w) @ '' detected''))]\<rparr>))"
  by (simp add: check_python_version_def print_plain_def print_status_def emit_def Let_def)

lemma run_too_old:
  assumes "version_too_old (version_info w)"
  shows "run self vo dep w =
    (Inr 1, w\<lparr>trace := trace w @ map Print
        [PlainLine (nl @ bar), PlainLine ''CODITECT Framework Cross-Platform Installation'',
         PlainLine bar, PlainLine (nl @ ''Platform: '' @ os_type self), PlainLine [],
         PlainLine ''Checking Python version...'',
         ErrorLine (''Python 3.8+ required (found '' @ version_text (version_info w) @ '')'')]\<rparr>)"
  using assms
  by (simp add: run_def print_header_eq check_python_version_eq print_error_def emit_def Let_def)

lemma version_too_old_iff:
  "version_too_old (major, minor, micro) \<longleftrightarrow> major < 3 \<or> (major = 3 \<and> minor < 8)"
  by (auto simp: version_too_old_def)

lemma install_script_too_old:
  assumes "version_too_old (version_info w)"
  shows "fst (install_script args w) = 1
     \<and> commands_of (trace (snd (install_script args w))) = commands_of (trace w)
     \<and> side_effects_of (trace (snd (install_script args w))) = side_effects_of (trace w)"
  using assms
  by (simp add: install_script_def main_def exit_code_of_def run_too_old print_plain_def emit_def)

text \<open>
  Claim C4. The version check succeeds exactly for the versions at or above 3.8. Below
  3.8 it returns the version-mismatch message, the run returns 1 in every mode, the
  command-line process exits with 1, and no external command (in particular no
  environment-creation command) is started.
\<close>

theorem version_check_threshold:
  assumes "version_info w = (major, minor, micro)"
  shows "(fst (fst (check_python_version self w)) \<longleftrightarrow> 3 < major \<or> (major = 3 \<and> 8 \<le> minor))
    \<and> (major < 3 \<or> (major = 3 \<and> minor < 8) \<longrightarrow>
          snd (fst (check_python_version self w)) =
            ''Python 3.8+ required (found '' @ version_text (major, minor, micro) @ '')''
          \<and> fst (run self vo dep w) = Inr 1
          \<and> commands_of (trace (snd (run self vo dep w))) = commands_of (trace w)
          \<and> side_effects_of (trace (snd (run self vo dep w))) = side_effects_of (trace w)
          \<and> fst (install_script args w) = 1
          \<and> commands_of (trace (snd (install_script args w))) = commands_of (trace w))"
proof -
  have old: "version_too_old (version_info w) \<longleftrightarrow> major < 3 \<or> (major = 3 \<and> minor < 8)"
    using assms by (simp add: version_too_old_iff)
  have a: "fst (fst (check_python_version self w)) \<longleftrightarrow> 3 < major \<or> (major = 3 \<and> 8 \<le> minor)"
    using old by (auto simp: check_python_version_eq)
  have b: "snd (fst (check_python_version self w)) =
            ''Python 3.8+ required (found '' @ version_text (major, minor, micro) @ '')''"
    if "version_too_old (version_info w)"
    using that assms by (simp add: check_python_version_eq)
  show ?thesis
    using a b old run_too_old [of w self vo dep] install_script_too_old [of w args]
    by simp
qed

theorem version_check_threshold_witness:
  "version_info (demo_world [] [] (3, 7, 9) []) = (3, 7, 9)
   \<and> \<not> fst (fst (check_python_version demo_installer (demo_world [] [] (3, 7, 9) [])))
   \<and> fst (run demo_installer False False (demo_world [] [] (3, 7, 9) [])) = Inr 1
   \<and> commands_of (trace (snd (run demo_installer False False (demo_world [] [] (3, 7, 9) [])))) = []
   \<and> fst (install_script \<lparr>venv_only = False, deps_only = False\<rparr> (demo_world [] [] (3, 7, 9) [])) = 1
   \<and> fst (fst (check_python_version demo_installer (demo_world [] [] (3, 8, 0) [])))"
proof -
  have h1: "version_info (demo_world [] [] (3, 7, 9) []) = (3, 7, 9)" by simp
  have h2: "version_info (demo_world [] [] (3, 8, 0) []) = (3, 8, 0)" by simp
  show ?thesis
    using h1 version_check_threshold [OF h1, of demo_installer False False
        "\<lparr>venv_only = False, deps_only = False\<rparr>"]
      version_check_threshold [OF h2, of demo_installer]
    by simp
qed

text \<open>
  Claim C9. The interpreter version is checked before anything else in every mode: when
  the version is below 3.8 the run returns 1, the only error it prints is the
  version-mismatch message (not the missing-environment one), it reads no answer and it
  touches neither the file system nor any process, whether or not the environment
  directory is there.
\<close>

theorem version_checked_first:
  assumes "version_too_old (version_info w)"
  shows "fst (run self vo dep w) = Inr 1
    \<and> errors_of (trace (snd (run self vo dep w))) = errors_of (trace w) @
         [''Python 3.8+ required (found '' @ version_text (version_info w) @ '')'']
    \<and> side_effects_of (trace (snd (run self vo dep w))) = side_effects_of (trace w)
    \<and> files (snd (run self vo dep w)) = files w
    \<and> stdin (snd (run self vo dep w)) = stdin w"
  using assms by (simp add: run_too_old)

theorem version_checked_first_witness:
  "version_too_old (version_info (demo_world [] [] (3, 7, 9) []))
   \<and> fst (run demo_installer False True (demo_world [] [] (3, 7, 9) [])) = Inr 1
   \<and> errors_of (trace (snd (run demo_installer False True (demo_world [] [] (3, 7, 9) [])))) =
       [''Python 3.8+ required (found 3.7.9)'']"
proof -
  have h: "version_too_old (version_info (demo_world [] [] (3, 7, 9) []))"
    by (simp add: version_too_old_def)
  show ?thesis
    using h version_checked_first [OF h, of demo_installer False True]
    by (simp add: version_text_379)
qed

section \<open>Mode flags\<close>




section \<open>The environment phase\<close>

lemma rmtree_eq:
  "rmtree p w =
     (case rmtree_error w p (files w) of
        None \<Rightarrow>
          (Inr (), w\<lparr>files := (\<lambda>q. files w q \<and> \<not> below p q), trace := trace w @ [Rmtree p]\<rparr>)
      | Some (m, fs') \<Rightarrow> (Inl (OSError m), w\<lparr>files := fs', trace := trace w @ [Rmtree p]\<rparr>))"
  by (simp add: rmtree_def emit_def split: option.splits)

lemma create_venv_existing:
  assumes "files w (venv_path self)" and "stdin w = response # rest"
  shows "create_venv self False w =
    (if py_lower (py_strip response) = ''y''
     then case rmtree (venv_path self)
                 (w\<lparr>stdin := rest, trace := trace w @
                    [Print (PlainLine (nl @ ''Creating virtual environment...'' @ nl)),
                     Print (WarningLine
                       (''Virtual environment already exists at '' @ path_str (venv_path self))),
                     Input ''Do you want to recreate it? (y/N): '',
                     Print (PlainLine ''Removing existing venv...'')]\<rparr>) of
            (Inl e, w5) \<Rightarrow> (Inl e, w5)
          | (Inr u, w5) \<Rightarrow> create_venv_command self w5
     else (Inr True,
           w\<lparr>stdin := rest, trace := trace w @
                 [Print (PlainLine (nl @ ''Creating virtual environment...'' @ nl)),
                  Print (WarningLine (''Virtual environment already exists at '' @ path_str (venv_path self))),
                  Input ''Do you want to recreate it? (y/N): '',
                  Print (StatusLine ''Using existing virtual environment'')]\<rparr>))"
  using assms
  by (simp add: create_venv_def py_input_def print_plain_def print_warning_def print_status_def
      emit_def Let_def)

lemma create_venv_command_eq:
  "create_venv_command self w =
     (case fst (exec w (venv_command self) (files w)) of
        Exit0 s \<Rightarrow>
          (Inr True,
           w\<lparr>files := snd (exec w (venv_command self) (files w)),
              trace := trace w @
                [Run (venv_command self),
                 Print (StatusLine (''Virtual environment created at '' @ path_str (venv_path self)))]\<rparr>)
      | ExitNonZero m \<Rightarrow>
          (Inr False,
           w\<lparr>files := snd (exec w (venv_command self) (files w)),
              trace := trace w @
                [Run (venv_command self),
                 Print (ErrorLine (''Failed to create virtual environment: '' @ m))]\<rparr>)
      | NotStarted m \<Rightarrow>
          (Inl (OSError m),
           w\<lparr>files := snd (exec w (venv_command self) (files w)),
              trace := trace w @ [Run (venv_command self)]\<rparr>))"
  by (simp add: create_venv_command_def subprocess_run_eq print_status_def print_error_def
      emit_def split: proc_outcome.splits)

lemma create_venv_answer_y:
  assumes "files w (venv_path self)" and "stdin w = response # rest"
    and "py_lower (py_strip response) = ''y''"
  shows "rmtree_error w (venv_path self) (files w) = None \<longrightarrow>
       side_effects_of (trace (snd (create_venv self False w))) =
         side_effects_of (trace w) @ [Rmtree (venv_path self), Run (venv_command self)]
       \<and> files (snd (create_venv self False w)) =
           snd (exec w (venv_command self) (\<lambda>q. files w q \<and> \<not> below (venv_path self) q))
       \<and> fst (create_venv self False w) =
           (case fst (exec w (venv_command self) (\<lambda>q. files w q \<and> \<not> below (venv_path self) q)) of
              Exit0 s \<Rightarrow> Inr True
            | ExitNonZero m \<Rightarrow> Inr False
            | NotStarted m \<Rightarrow> Inl (OSError m))"
    and "rmtree_error w (venv_path self) (files w) = Some (m, fs') \<longrightarrow>
       fst (create_venv self False w) = Inl (OSError m)
       \<and> side_effects_of (trace (snd (create_venv self False w))) =
           side_effects_of (trace w) @ [Rmtree (venv_path self)]
       \<and> files (snd (create_venv self False w)) = fs'"
  using assms
  by (simp_all add: create_venv_existing rmtree_eq create_venv_command_eq
      split: proc_outcome.splits)

text \<open>
  Claim C5. When the environment directory exists and the operator's answer is not
  \<open>y\<close>, the environment phase returns success, the file system is unchanged, and it has
  neither deleted anything nor started a command. The run goes on from there exactly as
  after a successful creation: it continues with its second half \<open>run_deps\<close>.
\<close>

theorem declined_recreation_leaves_environment:
  assumes "files w (venv_path self)" and "stdin w = response # rest"
    and "py_lower (py_strip response) \<noteq> ''y''"
  shows "fst (create_venv self False w) = Inr True
    \<and> files (snd (create_venv self False w)) = files w
    \<and> side_effects_of (trace (snd (create_venv self False w))) = side_effects_of (trace w)
    \<and> (\<not> version_too_old (version_info w) \<longrightarrow>
         run self vo False w =
           run_deps self vo
             (w\<lparr>stdin := rest, trace := trace w @
                [Print (PlainLine (nl @ bar)),
                 Print (PlainLine ''CODITECT Framework Cross-Platform Installation''),
                 Print (PlainLine bar),
                 Print (PlainLine (nl @ ''Platform: '' @ os_type self)),
                 Print (PlainLine []),
                 Print (PlainLine ''Checking Python version...''),
                 Print (StatusLine (''Python '' @ version_text (version_info w) @ '' detected'')),
                 Print (PlainLine (nl @ ''Creating virtual environment...'' @ nl)),
                 Print (WarningLine
                   (''Virtual environment already exists at '' @ path_str (venv_path self))),
                 Input ''Do you want to recreate it? (y/N): '',
                 Print (StatusLine ''Using existing virtual environment'')]\<rparr>))"
proof -
  have phase: "fst (create_venv self False w) = Inr True
    \<and> files (snd (create_venv self False w)) = files w
    \<and> side_effects_of (trace (snd (create_venv self False w))) = side_effects_of (trace w)"
    using assms by (simp add: create_venv_existing)
  have whole: "run self vo False w = run_deps self vo
             (w\<lparr>stdin := rest, trace := trace w @
                [Print (PlainLine (nl @ bar)),
                 Print (PlainLine ''CODITECT Framework Cross-Platform Installation''),
                 Print (PlainLine bar),
                 Print (PlainLine (nl @ ''Platform: '' @ os_type self)),
                 Print (PlainLine []),
                 Print (PlainLine ''Checking Python version...''),
                 Print (StatusLine (''Python '' @ version_text (version_info w) @ '' detected'')),
                 Print (PlainLine (nl @ ''Creating virtual environment...'' @ nl)),
                 Print (WarningLine
                   (''Virtual environment already exists at '' @ path_str (venv_path self))),
                 Input ''Do you want to recreate it? (y/N): '',
                 Print (StatusLine ''Using existing virtual environment'')]\<rparr>)"
    if "\<not> version_too_old (version_info w)"
    using that assms
    by (simp add: run_def print_header_eq check_python_version_eq create_venv_existing)
  from phase whole show ?thesis by blast
qed

theorem declined_recreation_witness:
  "files (demo_world [demo_venv] [] (3, 11, 2) [''n'']) (venv_path demo_installer)
   \<and> py_lower (py_strip ''n'') \<noteq> ''y''
   \<and> fst (create_venv demo_installer False (demo_world [demo_venv] [] (3, 11, 2) [''n''])) = Inr True
   \<and> side_effects_of (trace (snd (create_venv demo_installer False
        (demo_world [demo_venv] [] (3, 11, 2) [''n''])))) = []
   \<and> fst (run demo_installer True False (demo_world [demo_venv] [] (3, 11, 2) [''n''])) = Inr 0"
proof -
  have h1: "files (demo_world [demo_venv] [] (3, 11, 2) [''n'']) (venv_path demo_installer)"
    by simp
  have h2: "stdin (demo_world [demo_venv] [] (3, 11, 2) [''n'']) = ''n'' # []"
    by simp
  have h3: "\<not> version_too_old (version_info (demo_world [demo_venv] [] (3, 11, 2) [''n'']))"
    by (simp add: version_too_old_def)
  show ?thesis
    using h1 h3 answer_n
      declined_recreation_leaves_environment [OF h1 h2 answer_n, of True]
    by (simp add: run_deps_def)
qed

text \<open>
  Which answers are accepted, for answers whose characters are code points below 256:
  exactly \<open>y\<close> or \<open>Y\<close> between whitespace.
\<close>

lemma strip_singleton:
  "rev (dropWhile P (rev (dropWhile P s))) = [c] \<longleftrightarrow>
     (\<exists>pre post. s = pre @ [c] @ post \<and> \<not> P c \<and> list_all P pre \<and> list_all P post)"
proof
  assume a: "rev (dropWhile P (rev (dropWhile P s))) = [c]"
  define d where "d = dropWhile P s"
  have dc: "dropWhile P (rev d) = [c]"
    using a by (simp add: d_def rev_singleton_conv)
  have "rev d = takeWhile P (rev d) @ [c]"
    using takeWhile_dropWhile_id [of P "rev d"] dc by simp
  then have d: "d = c # rev (takeWhile P (rev d))"
    by (metis rev_append rev_rev_ident rev_singleton_conv append_Cons append_Nil)
  have nc: "\<not> P c"
    using hd_dropWhile [of P "rev d"] dc by simp
  have s: "s = takeWhile P s @ [c] @ rev (takeWhile P (rev d))"
    using takeWhile_dropWhile_id [of P s] d d_def by simp
  have p1: "list_all P (takeWhile P s)"
    by (auto simp: list_all_iff dest: set_takeWhileD)
  have p2: "list_all P (rev (takeWhile P (rev d)))"
    by (auto simp: list_all_iff dest: set_takeWhileD)
  from s nc p1 p2 show "\<exists>pre post. s = pre @ [c] @ post \<and> \<not> P c \<and> list_all P pre \<and> list_all P post"
    by blast
next
  assume "\<exists>pre post. s = pre @ [c] @ post \<and> \<not> P c \<and> list_all P pre \<and> list_all P post"
  then obtain pre post where s: "s = pre @ [c] @ post" and nc: "\<not> P c"
    and p1: "list_all P pre" and p2: "list_all P post" by blast
  have "dropWhile P s = c # post"
    using s nc p1 by (simp add: list_all_iff dropWhile_append2)
  moreover have "dropWhile P (rev post @ [c]) = [c]"
    using nc p2 by (simp add: list_all_iff dropWhile_append)
  ultimately show "rev (dropWhile P (rev (dropWhile P s))) = [c]"
    by simp
qed

lemma lower_char_y: "lower_char c = CHR ''y'' \<longleftrightarrow> c = CHR ''y'' \<or> c = CHR ''Y''"
proof -
  define n :: nat where "n = of_char c"
  have lt: "n < 256" by (simp add: n_def)
  have y: "c = CHR ''y'' \<longleftrightarrow> n = 121"
  proof -
    have "c = CHR ''y'' \<longleftrightarrow> (of_char c :: nat) = of_char (CHR ''y'')"
      by (simp only: of_char_eq_iff)
    then show ?thesis by (simp add: n_def)
  qed
  have Y: "c = CHR ''Y'' \<longleftrightarrow> n = 89"
  proof -
    have "c = CHR ''Y'' \<longleftrightarrow> (of_char c :: nat) = of_char (CHR ''Y'')"
      by (simp only: of_char_eq_iff)
    then show ?thesis by (simp add: n_def)
  qed
  have up: "char_of (n + 32) = CHR ''y'' \<longleftrightarrow> (n + 32) mod 256 = 121"
    by (simp add: char_of_eq_iff take_bit_eq_mod)
  have "lower_char c = (if (65 \<le> n \<and> n \<le> 90) \<or> (192 \<le> n \<and> n \<le> 222 \<and> n \<noteq> 215)
         then char_of (n + 32) else c)"
    by (simp add: lower_char_def n_def Let_def)
  then show ?thesis
    using lt y Y up by (auto simp: mod_if)
qed

lemma answer_y_iff:
  "py_lower (py_strip response) = ''y'' \<longleftrightarrow>
     (\<exists>pre post c. response = pre @ [c] @ post \<and> (c = CHR ''y'' \<or> c = CHR ''Y'')
        \<and> list_all py_isspace pre \<and> list_all py_isspace post)"
proof -
  have ns: "\<not> py_isspace (CHR ''y'')" "\<not> py_isspace (CHR ''Y'')"
    by (simp_all add: py_isspace_def)
  have "py_lower (py_strip response) = ''y'' \<longleftrightarrow>
          (\<exists>c. py_strip response = [c] \<and> lower_char c = CHR ''y'')"
    by (auto simp: py_lower_def map_eq_Cons_conv)
  also have "\<dots> \<longleftrightarrow> (\<exists>c. py_strip response = [c] \<and> (c = CHR ''y'' \<or> c = CHR ''Y''))"
    by (simp only: lower_char_y)
  also have "\<dots> \<longleftrightarrow> (\<exists>pre post c. response = pre @ [c] @ post \<and> (c = CHR ''y'' \<or> c = CHR ''Y'')
        \<and> list_all py_isspace pre \<and> list_all py_isspace post)"
    unfolding py_strip_def strip_singleton using ns by blast
  finally show ?thesis .
qed

text \<open>
  With the answer \<open>y\<close> and an environment directory that \<open>shutil.rmtree\<close> refuses,
  nothing is deleted and no creation command is started: the exception leaves the phase.
\<close>

theorem recreation_answer_y_counterexample:
  "py_lower (py_strip ''y'') = ''y''
   \<and> fst (create_venv demo_installer False
        (demo_symlinked (demo_world [demo_venv] [] (3, 11, 2) [''y'']))) =
       Inl (OSError ''Cannot call rmtree on a symbolic link'')
   \<and> commands_of (trace (snd (create_venv demo_installer False
        (demo_symlinked (demo_world [demo_venv] [] (3, 11, 2) [''y'']))))) = []
   \<and> files (snd (create_venv demo_installer False
        (demo_symlinked (demo_world [demo_venv] [] (3, 11, 2) [''y''])))) demo_venv"
  by code_simp

text \<open>
  Claim C10, as amended. With the environment directory present and recreation not
  forced, the phase returns success with nothing deleted, nothing started and the file
  system unchanged if and only if the answer, stripped and lower-cased, is not \<open>y\<close>; it
  attempts the deletion of the directory if and only if the answer is \<open>y\<close>. When that
  deletion succeeds, the command \<open>python -m venv\<close> is started next, on the file system
  from which the directory and everything below it is gone, and the phase succeeds
  exactly when the command exits with status 0. When the deletion raises, the exception
  leaves the phase, and no creation command is started.
\<close>

theorem recreation_iff_answer_y:
  assumes "files w (venv_path self)" and "stdin w = response # rest"
  shows "(fst (create_venv self False w) = Inr True
        \<and> side_effects_of (trace (snd (create_venv self False w))) = side_effects_of (trace w)
        \<and> files (snd (create_venv self False w)) = files w
          \<longleftrightarrow> py_lower (py_strip response) \<noteq> ''y'')
    \<and> ((\<exists>es. side_effects_of (trace (snd (create_venv self False w))) =
              side_effects_of (trace w) @ Rmtree (venv_path self) # es)
          \<longleftrightarrow> py_lower (py_strip response) = ''y'')
    \<and> (py_lower (py_strip response) = ''y''
        \<and> rmtree_error w (venv_path self) (files w) = None \<longrightarrow>
          side_effects_of (trace (snd (create_venv self False w))) =
            side_effects_of (trace w) @
              [Rmtree (venv_path self),
               Run [get_python_executable self, ''-m'', ''venv'', path_str (venv_path self)]]
          \<and> files (snd (create_venv self False w)) =
              snd (exec w [get_python_executable self, ''-m'', ''venv'', path_str (venv_path self)]
                     (\<lambda>q. files w q \<and> \<not> below (venv_path self) q))
          \<and> fst (create_venv self False w) =
              (case fst (exec w [get_python_executable self, ''-m'', ''venv'', path_str (venv_path self)]
                           (\<lambda>q. files w q \<and> \<not> below (venv_path self) q)) of
                 Exit0 s \<Rightarrow> Inr True
               | ExitNonZero m \<Rightarrow> Inr False
               | NotStarted m \<Rightarrow> Inl (OSError m)))
    \<and> (py_lower (py_strip response) = ''y''
        \<and> rmtree_error w (venv_path self) (files w) = Some (msg, fs') \<longrightarrow>
          fst (create_venv self False w) = Inl (OSError msg)
          \<and> side_effects_of (trace (snd (create_venv self False w))) =
              side_effects_of (trace w) @ [Rmtree (venv_path self)]
          \<and> files (snd (create_venv self False w)) = fs')"
proof (cases "py_lower (py_strip response) = ''y''")
  case True
  note y = create_venv_answer_y [OF assms True]
  have attempted: "\<exists>es. side_effects_of (trace (snd (create_venv self False w))) =
              side_effects_of (trace w) @ Rmtree (venv_path self) # es"
  proof (cases "rmtree_error w (venv_path self) (files w)")
    case None
    with y(1) show ?thesis by simp
  next
    case (Some r)
    then obtain m fs where "rmtree_error w (venv_path self) (files w) = Some (m, fs)"
      by (cases r) simp
    with y(2) [of m fs] show ?thesis by simp
  qed
  then have changed: "side_effects_of (trace (snd (create_venv self False w))) \<noteq>
      side_effects_of (trace w)"
    by auto
  from True attempted changed y(1) y(2) [of msg fs'] show ?thesis
    by (simp add: venv_command_def)
next
  case False
  then have "fst (create_venv self False w) = Inr True
        \<and> side_effects_of (trace (snd (create_venv self False w))) = side_effects_of (trace w)
        \<and> files (snd (create_venv self False w)) = files w"
    using assms by (simp add: create_venv_existing)
  with False show ?thesis by simp
qed

theorem recreation_iff_answer_y_witness:
  "fst (create_venv demo_installer False (demo_world [demo_venv] [] (3, 11, 2) [''yes''])) = Inr True
   \<and> side_effects_of (trace (snd (create_venv demo_installer False
        (demo_world [demo_venv] [] (3, 11, 2) [''yes''])))) = []
   \<and> fst (create_venv demo_installer False (demo_world [demo_venv] [] (3, 11, 2) [[]])) = Inr True
   \<and> side_effects_of (trace (snd (create_venv demo_installer False
        (demo_world [demo_venv] [] (3, 11, 2) [[]])))) = []
   \<and> side_effects_of (trace (snd (create_venv demo_installer False
        (demo_world [demo_venv] [] (3, 11, 2) ['' Y ''])))) =
       [Rmtree demo_venv, Run [''python3'', ''-m'', ''venv'', ''/srv/coditect/venv'']]
   \<and> fst (create_venv demo_installer False (demo_world [demo_venv] [] (3, 11, 2) ['' Y ''])) =
       Inr True
   \<and> side_effects_of (trace (snd (create_venv demo_installer False
        (demo_symlinked (demo_world [demo_venv] [] (3, 11, 2) ['' Y '']))))) = [Rmtree demo_venv]"
proof -
  have h1: "files (demo_world [demo_venv] [] (3, 11, 2) answers) (venv_path demo_installer)"
    for answers by simp
  have h2: "stdin (demo_world [demo_venv] [] (3, 11, 2) [a]) = a # []" for a
    by simp
  have g1: "files (demo_symlinked (demo_world [demo_venv] [] (3, 11, 2) answers))
      (venv_path demo_installer)" for answers
    by simp
  have g2: "stdin (demo_symlinked (demo_world [demo_venv] [] (3, 11, 2) [a])) = a # []" for a
    by simp
  have ok: "rmtree_error (demo_world [demo_venv] [] (3, 11, 2) ['' Y '']) (venv_path demo_installer)
      (files (demo_world [demo_venv] [] (3, 11, 2) ['' Y ''])) = None"
    by (simp add: demo_world_def)
  have refused: "rmtree_error (demo_symlinked (demo_world [demo_venv] [] (3, 11, 2) ['' Y '']))
      (venv_path demo_installer)
      (files (demo_symlinked (demo_world [demo_venv] [] (3, 11, 2) ['' Y '']))) =
        Some (''Cannot call rmtree on a symbolic link'',
              files (demo_symlinked (demo_world [demo_venv] [] (3, 11, 2) ['' Y ''])))"
    by simp
  have run_ok: "fst (exec (demo_world [demo_venv] [] (3, 11, 2) ['' Y ''])
      [get_python_executable demo_installer, ''-m'', ''venv'', path_str (venv_path demo_installer)]
      (\<lambda>q. files (demo_world [demo_venv] [] (3, 11, 2) ['' Y '']) q
            \<and> \<not> below (venv_path demo_installer) q)) = Exit0 []"
    by (simp add: demo_simps)
  have argv: "[get_python_executable demo_installer, ''-m'', ''venv'',
      path_str (venv_path demo_installer)] = [''python3'', ''-m'', ''venv'', ''/srv/coditect/venv'']"
    by (simp add: demo_simps)
  show ?thesis
    using recreation_iff_answer_y [OF h1 h2, of "''yes''"]
      recreation_iff_answer_y [OF h1 h2, of "[]"]
      recreation_iff_answer_y [OF h1 h2, of "'' Y ''"]
      recreation_iff_answer_y [OF g1 g2, of "'' Y ''",
        where msg = "''Cannot call rmtree on a symbolic link''"
          and fs' = "files (demo_symlinked (demo_world [demo_venv] [] (3, 11, 2) ['' Y '']))"]
      answer_yes answer_empty answer_Y ok refused run_ok argv
    by simp
qed

section \<open>The dependency phase\<close>

lemma install_dependencies_no_venv:
  assumes "\<not> files w (venv_path self)"
  shows "install_dependencies self w =
    (Inr False, w\<lparr>trace := trace w @
       [Print (PlainLine (nl @ ''Installing dependencies...'' @ nl)),
        Print (ErrorLine ''Virtual environment not found. Run without --deps-only first.'')]\<rparr>)"
  using assms
  by (simp add: install_dependencies_def print_plain_def print_error_def emit_def Let_def)

lemma run_deps_only_eq:
  assumes "\<not> version_too_old (version_info w)"
  shows "run self vo True w =
     run_deps self vo (w\<lparr>trace := trace w @ map Print
        [PlainLine (nl @ bar), PlainLine ''CODITECT Framework Cross-Platform Installation'',
         PlainLine bar, PlainLine (nl @ ''Platform: '' @ os_type self), PlainLine [],
         PlainLine ''Checking Python version...'',
         StatusLine (''Python '' @ version_text (version_info w) @ '' detected'')]\<rparr>)"
  using assms
  by (simp add: run_def print_header_eq check_python_version_eq Let_def)

lemma run_deps_only_no_venv:
  assumes "\<not> files w (venv_path self)"
  shows "fst (run self False True w) = Inr 1
    \<and> files (snd (run self False True w)) = files w
    \<and> stdin (snd (run self False True w)) = stdin w
    \<and> side_effects_of (trace (snd (run self False True w))) = side_effects_of (trace w)
    \<and> commands_of (trace (snd (run self False True w))) = commands_of (trace w)
    \<and> errors_of (trace (snd (run self False True w))) = errors_of (trace w) @
        [if version_too_old (version_info w)
         then ''Python 3.8+ required (found '' @ version_text (version_info w) @ '')''
         else ''Virtual environment not found. Run without --deps-only first.'']"
proof (cases "version_too_old (version_info w)")
  case True
  then show ?thesis by (simp add: run_too_old)
next
  case False
  then show ?thesis using assms
    by (simp add: run_deps_only_eq run_deps_def install_dependencies_no_venv)
qed

text \<open>
  Claim C1. In dependencies-only mode (\<open>deps_only\<close> set, \<open>venv_only\<close> not), a run that
  finds no environment directory returns exit code 1; it starts no external command,
  deletes nothing and leaves the file system as it was, so the environment is not
  created. The same holds for the command line: with \<open>--deps-only\<close> given, whatever
  else is given, the process exits with 1 and starts no command.
\<close>

theorem deps_only_without_environment:
  assumes "\<not> files w (venv_path self)"
  shows "fst (run self False True w) = Inr 1
    \<and> files (snd (run self False True w)) = files w
    \<and> side_effects_of (trace (snd (run self False True w))) = side_effects_of (trace w)
    \<and> commands_of (trace (snd (run self False True w))) = commands_of (trace w)
    \<and> (self = CrossPlatformInstaller w \<and> deps_only args \<longrightarrow>
         fst (install_script args w) = 1
         \<and> files (snd (install_script args w)) = files w
         \<and> side_effects_of (trace (snd (install_script args w))) = side_effects_of (trace w)
         \<and> commands_of (trace (snd (install_script args w))) = commands_of (trace w))"
proof -
  note r = run_deps_only_no_venv [OF assms]
  have "fst (install_script args w) = 1
         \<and> files (snd (install_script args w)) = files w
         \<and> side_effects_of (trace (snd (install_script args w))) = side_effects_of (trace w)
         \<and> commands_of (trace (snd (install_script args w))) = commands_of (trace w)"
    if "self = CrossPlatformInstaller w" "deps_only args"
  proof (cases "venv_only args")
    case True
    with that show ?thesis
      by (simp add: install_script_def main_def exit_code_of_def print_plain_def emit_def)
  next
    case False
    with that r show ?thesis
      by (simp add: install_script_def main_def exit_code_of_def case_prod_beta)
  qed
  with r show ?thesis by blast
qed

theorem deps_only_without_environment_witness:
  "\<not> files (demo_world [] [] (3, 11, 2) []) (venv_path demo_installer)
   \<and> fst (run demo_installer False True (demo_world [] [] (3, 11, 2) [])) = Inr 1
   \<and> commands_of (trace (snd (run demo_installer False True (demo_world [] [] (3, 11, 2) [])))) = []
   \<and> fst (install_script \<lparr>venv_only = False, deps_only = True\<rparr> (demo_world [] [] (3, 11, 2) [])) = 1
   \<and> commands_of (trace (snd (install_script \<lparr>venv_only = False, deps_only = True\<rparr>
        (demo_world [] [] (3, 11, 2) [])))) = []"
proof -
  have h: "\<not> files (demo_world [] [] (3, 11, 2) []) (venv_path demo_installer)"
    by simp
  show ?thesis
    using h deps_only_without_environment [OF h, of "\<lparr>venv_only = False, deps_only = True\<rparr>"]
    by (simp add: demo_installer_eq)
qed

lemma install_dependencies_upgrade_ok:
  assumes "files w (venv_path self)"
    and "exec w (pip_upgrade_command self) (files w) = (Exit0 out1, fs1)"
  shows "install_dependencies self w =
    (let w4 = w\<lparr>files := fs1, trace := trace w @
                 [Print (PlainLine (nl @ ''Installing dependencies...'' @ nl)),
                  Print (PlainLine ''Upgrading pip...''),
                  Run (pip_upgrade_command self),
                  Print (StatusLine ''pip upgraded'')]\<rparr>
     in if fs1 (requirements_file self)
        then case subprocess_run (manifest_install_command self)
                    (print_plain ''Installing from requirements.txt...'' w4) of
               (Inl e, w6) \<Rightarrow> deps_failed e w6
             | (Inr out2, w6) \<Rightarrow>
                 verify_gitpython self
                   (print_status ''Dependencies installed from requirements.txt'' w6)
        else (Inr True,
              print_warning ''requirements.txt not found, skipping dependency installation'' w4))"
  using assms
  by (simp add: install_dependencies_def subprocess_run_eq print_plain_def print_status_def
      emit_def Let_def cong: sum.case_cong)

lemma install_dependencies_upgrade_failed:
  assumes "files w (venv_path self)"
    and "exec w (pip_upgrade_command self) (files w) = (out, fs1)"
    and "\<forall>s. out \<noteq> Exit0 s"
  shows "commands_of (trace (snd (install_dependencies self w))) =
           commands_of (trace w) @ [pip_upgrade_command self]"
  using assms
  by (cases out)
     (simp_all add: install_dependencies_def subprocess_run_eq print_plain_def print_error_def
      deps_failed_def emit_def Let_def)

text \<open>
  With the manifest absent and the environment present, an upgrade that exits with a
  non-zero status makes the phase fail.
\<close>

theorem missing_manifest_counterexample:
  "\<not> files (demo_world [demo_venv] [pip_upgrade_command demo_installer] (3, 11, 2) [])
       (requirements_file demo_installer)
   \<and> fst (install_dependencies demo_installer
        (demo_world [demo_venv] [pip_upgrade_command demo_installer] (3, 11, 2) [])) = Inr False
   \<and> commands_of (trace (snd (install_dependencies demo_installer
        (demo_world [demo_venv] [pip_upgrade_command demo_installer] (3, 11, 2) [])))) =
       [pip_upgrade_command demo_installer]"
  by code_simp

text \<open>
  Claim C3, as amended. When the manifest is absent at the moment the phase looks for
  it, the manifest-install command is never started: the only command of the phase is
  the upgrade (and none at all without an environment directory). If moreover the
  environment directory exists and the upgrade exits with status 0, the phase returns
  success with a warning and no error. Without these two conditions the phase fails.
\<close>

theorem missing_manifest_skips_install:
  assumes "\<not> snd (exec w (pip_upgrade_command self) (files w)) (requirements_file self)"
  shows "commands_of (trace (snd (install_dependencies self w))) =
           commands_of (trace w) @ (if files w (venv_path self) then [pip_upgrade_command self] else [])
    \<and> (files w (venv_path self) \<and> (\<exists>out. fst (exec w (pip_upgrade_command self) (files w)) = Exit0 out)
        \<longrightarrow> fst (install_dependencies self w) = Inr True
          \<and> warnings_of (trace (snd (install_dependencies self w))) =
              warnings_of (trace w) @ [''requirements.txt not found, skipping dependency installation'']
          \<and> errors_of (trace (snd (install_dependencies self w))) = errors_of (trace w))"
proof (cases "files w (venv_path self)")
  case False
  then show ?thesis by (simp add: install_dependencies_no_venv)
next
  case True
  obtain out fs1 where ex: "exec w (pip_upgrade_command self) (files w) = (out, fs1)"
    by (cases "exec w (pip_upgrade_command self) (files w)")
  with assms have absent: "\<not> fs1 (requirements_file self)" by simp
  show ?thesis
  proof (cases "\<exists>s. out = Exit0 s")
    case True
    then obtain s where "out = Exit0 s" by blast
    with ex \<open>files w (venv_path self)\<close> absent show ?thesis
      by (simp add: install_dependencies_upgrade_ok print_warning_def emit_def)
  next
    case False
    then have "\<forall>s. out \<noteq> Exit0 s" by blast
    from install_dependencies_upgrade_failed [OF \<open>files w (venv_path self)\<close> ex this] False ex
    show ?thesis using \<open>files w (venv_path self)\<close> by simp
  qed
qed

theorem missing_manifest_skips_install_witness:
  "\<not> snd (exec (demo_world [demo_venv] [] (3, 11, 2) []) (pip_upgrade_command demo_installer)
            (files (demo_world [demo_venv] [] (3, 11, 2) []))) (requirements_file demo_installer)
   \<and> fst (install_dependencies demo_installer (demo_world [demo_venv] [] (3, 11, 2) [])) = Inr True
   \<and> commands_of (trace (snd (install_dependencies demo_installer
        (demo_world [demo_venv] [] (3, 11, 2) [])))) = [pip_upgrade_command demo_installer]"
proof -
  have h: "\<not> snd (exec (demo_world [demo_venv] [] (3, 11, 2) []) (pip_upgrade_command demo_installer)
            (files (demo_world [demo_venv] [] (3, 11, 2) []))) (requirements_file demo_installer)"
    by code_simp
  have v: "files (demo_world [demo_venv] [] (3, 11, 2) []) (venv_path demo_installer)"
    by simp
  have e: "\<exists>out. fst (exec (demo_world [demo_venv] [] (3, 11, 2) [])
      (pip_upgrade_command demo_installer) (files (demo_world [demo_venv] [] (3, 11, 2) []))) = Exit0 out"
    by (simp add: demo_simps)
  show ?thesis
    using h v e missing_manifest_skips_install [OF h] by simp
qed

text \<open>
  Claim C6. When the environment exists, the upgrade and the manifest install both exit
  with status 0 and the import probe exits with a non-zero status, the phase still
  returns success: the probe's failure appears as one warning and no error, and the run
  goes on to exit code 0.
\<close>

theorem probe_failure_is_warning:
  assumes "files w (venv_path self)"
    and "exec w (pip_upgrade_command self) (files w) = (Exit0 out1, fs1)"
    and "fs1 (requirements_file self)"
    and "exec w (manifest_install_command self) fs1 = (Exit0 out2, fs2)"
    and "exec w (import_probe_command self) fs2 = (ExitNonZero m, fs3)"
  shows "fst (install_dependencies self w) = Inr True
    \<and> warnings_of (trace (snd (install_dependencies self w))) =
        warnings_of (trace w) @ [''GitPython not installed - git operations will use subprocess fallback'']
    \<and> errors_of (trace (snd (install_dependencies self w))) = errors_of (trace w)
    \<and> commands_of (trace (snd (install_dependencies self w))) =
        commands_of (trace w) @
          [pip_upgrade_command self, manifest_install_command self, import_probe_command self]
    \<and> fst (run_deps self False w) = Inr 0"
proof -
  have "install_dependencies self w =
     (Inr True, w\<lparr>files := fs3, trace := trace w @
                 [Print (PlainLine (nl @ ''Installing dependencies...'' @ nl)),
                  Print (PlainLine ''Upgrading pip...''),
                  Run (pip_upgrade_command self),
                  Print (StatusLine ''pip upgraded''),
                  Print (PlainLine ''Installing from requirements.txt...''),
                  Run (manifest_install_command self),
                  Print (StatusLine ''Dependencies installed from requirements.txt''),
                  Run (import_probe_command self),
                  Print (WarningLine
                    ''GitPython not installed - git operations will use subprocess fallback'')]\<rparr>)"
    using assms
    by (simp add: install_dependencies_upgrade_ok verify_gitpython_def subprocess_run_eq
        print_plain_def print_status_def print_warning_def emit_def)
  then show ?thesis by (simp add: run_deps_def)
qed

theorem probe_failure_is_warning_witness:
  "fst (install_dependencies demo_installer
     (demo_world [demo_venv, demo_manifest] [import_probe_command demo_installer] (3, 11, 2) [])) = Inr True
   \<and> warnings_of (trace (snd (install_dependencies demo_installer
       (demo_world [demo_venv, demo_manifest] [import_probe_command demo_installer] (3, 11, 2) [])))) =
       [''GitPython not installed - git operations will use subprocess fallback'']
   \<and> errors_of (trace (snd (install_dependencies demo_installer
       (demo_world [demo_venv, demo_manifest] [import_probe_command demo_installer] (3, 11, 2) [])))) = []"
proof -
  define W where "W = demo_world [demo_venv, demo_manifest] [import_probe_command demo_installer] (3, 11, 2) []"
  have h1: "files W (venv_path demo_installer)"
    by (simp add: W_def)
  have h2: "exec W (pip_upgrade_command demo_installer) (files W) = (Exit0 (''3.1.43'' @ nl), files W)"
    by (simp add: W_def demo_simps)
  have h3: "files W (requirements_file demo_installer)"
    by (simp add: W_def demo_simps)
  have h4: "exec W (manifest_install_command demo_installer) (files W) = (Exit0 (''3.1.43'' @ nl), files W)"
    by (simp add: W_def demo_simps)
  have h5: "exec W (import_probe_command demo_installer) (files W) =
      (ExitNonZero ''returned non-zero exit status 1.'', files W)"
    by (simp add: W_def demo_simps)
  show ?thesis
    using probe_failure_is_warning [OF h1 h2 h3 h4 h5]
    by (simp add: W_def)
qed

section \<open>The GUI worker and the polling loop\<close>

lemma run_installation_success:
  assumes "''success'' \<in> set (map fst (fst (run_installation w)))"
  shows "fst (run_installation w) =
     [(''log'', ''Starting installation...''), (''log'', []),
      (''progress'', ''Checking Python version...''),
      (''log'', ''Checking Python version...''),
      (''log'', check_mark @ '' Python version OK''), (''log'', []),
      (''progress'', ''Creating virtual environment...''),
      (''log'', ''Creating virtual environment...''),
      (''log'', check_mark @ '' Virtual environment created''), (''log'', []),
      (''progress'', ''Installing dependencies...''),
      (''log'', ''Installing dependencies...''),
      (''log'', check_mark @ '' Dependencies installed''), (''log'', []),
      (''success'', ''Installation complete!'')]"
  using assms
  by (auto simp: run_installation_def Let_def worker_exception_def
      split: prod.splits sum.splits if_splits)

lemma drain_append: "drain w (xs @ ys) ui = drain w ys (drain w xs ui)"
  by (induction xs arbitrary: ui) simp_all

lemma drain_quiet_button:
  assumes "\<forall>m \<in> set ms. fst m = ''log'' \<or> fst m = ''progress''"
  shows "install_button_enabled (drain w ms ui) = install_button_enabled ui"
  using assms
  by (induction ms arbitrary: ui)
     (auto simp: handle_message_def log_message_def update_progress_def)

lemma success_enables_button:
  "install_button_enabled (handle_message w (''success'', m) ui)"
  by (simp add: handle_message_def installation_success_def Let_def)

lemma take_quiet:
  assumes "k < length ms" and "\<forall>m \<in> set (butlast ms). fst m = ''log'' \<or> fst m = ''progress''"
  shows "\<forall>m \<in> set (take k ms). fst m = ''log'' \<or> fst m = ''progress''"
proof -
  have "take k ms = take k (butlast ms)"
    using assms(1) by (simp add: take_butlast)
  then show ?thesis
    using assms(2) by (metis in_set_takeD)
qed

lemma drain_log_text:
  assumes "\<forall>m \<in> set ms. fst m = ''log'' \<or> fst m = ''progress''"
  shows "log_text (drain w ms ui) = log_text ui @ map snd (filter (\<lambda>m. fst m = ''log'') ms)"
  using assms
  by (induction ms arbitrary: ui)
     (auto simp: handle_message_def log_message_def update_progress_def)

text \<open>
  Polling: one call of \<open>_process_messages\<close> handles what is on the queue, in order, and
  two polls over two batches handle the same messages as one poll over all of them.
\<close>

lemma handle_message_queue:
  "handle_message w msg (ui\<lparr>message_queue := q\<rparr>) = (handle_message w msg ui)\<lparr>message_queue := q\<rparr>"
  by (cases msg)
     (simp add: handle_message_def log_message_def update_progress_def installation_success_def
      installation_error_def Let_def)

lemma drain_queue:
  "drain w ms (ui\<lparr>message_queue := q\<rparr>) = (drain w ms ui)\<lparr>message_queue := q\<rparr>"
  by (induction ms arbitrary: ui) (simp_all add: handle_message_queue)

lemma put_messages_queue:
  "message_queue (foldl (\<lambda>u m. put_message m u) ui ms) = message_queue ui @ ms"
  by (induction ms arbitrary: ui) (simp_all add: put_message_def)

lemma put_messages_eq:
  "foldl (\<lambda>u m. put_message m u) ui ms = ui\<lparr>message_queue := message_queue ui @ ms\<rparr>"
  by (induction ms arbitrary: ui) (simp_all add: put_message_def)

lemma process_messages_eq:
  "process_messages w ui = (drain w (message_queue ui) ui)\<lparr>message_queue := []\<rparr>"
  by (simp add: process_messages_def drain_queue)

lemma two_polls:
  assumes "message_queue ui = []"
  shows "process_messages w
           (foldl (\<lambda>u m. put_message m u)
              (process_messages w (foldl (\<lambda>u m. put_message m u) ui xs)) ys) =
         (drain w (xs @ ys) ui)\<lparr>message_queue := []\<rparr>"
  using assms
  by (simp add: process_messages_eq put_messages_eq drain_queue drain_append)

text \<open>
  The order as the scenario words it (one log message, one progress-text update, log
  messages, success) is not the order of a successful run: the second message is a log
  message, and two more progress-text updates follow the first.
\<close>

theorem gui_scenario_order_counterexample:
  "''success'' \<in> set (map fst (fst (run_installation (demo_world [] [] (3, 11, 2) []))))
   \<and> \<not> scenario_order (map fst (fst (run_installation (demo_world [] [] (3, 11, 2) []))))"
  by code_simp

text \<open>
  Claim C8, as amended. A successful GUI run puts on the queue, in this order, two log
  messages, then three times a progress-text update followed by three log messages, then
  one success message, which is the last. The user interface, taking the messages in
  the order they were put (in however many polls), keeps the action button disabled
  after every proper prefix of them and enables it only with the last: by then every
  log line is in the log view and the progress label shows the last progress text.
\<close>

theorem gui_success_order_and_rendering:
  assumes "''success'' \<in> set (map fst (fst (run_installation w)))"
    and "\<not> install_button_enabled ui"
  shows "map fst (fst (run_installation w)) = success_order
    \<and> (\<forall>k < length (fst (run_installation w)).
          \<not> install_button_enabled (drain w' (take k (fst (run_installation w))) ui))
    \<and> install_button_enabled (drain w' (fst (run_installation w)) ui)
    \<and> log_text (drain w' (butlast (fst (run_installation w))) ui) =
        log_text ui @ map snd (filter (\<lambda>m. fst m = ''log'') (fst (run_installation w)))
    \<and> progress_label (drain w' (butlast (fst (run_installation w))) ui) =
        ''Installing dependencies...''"
proof -
  define ms where "ms = fst (run_installation w)"
  have ms: "ms =
     [(''log'', ''Starting installation...''), (''log'', []),
      (''progress'', ''Checking Python version...''),
      (''log'', ''Checking Python version...''),
      (''log'', check_mark @ '' Python version OK''), (''log'', []),
      (''progress'', ''Creating virtual environment...''),
      (''log'', ''Creating virtual environment...''),
      (''log'', check_mark @ '' Virtual environment created''), (''log'', []),
      (''progress'', ''Installing dependencies...''),
      (''log'', ''Installing dependencies...''),
      (''log'', check_mark @ '' Dependencies installed''), (''log'', []),
      (''success'', ''Installation complete!'')]"
    unfolding ms_def by (rule run_installation_success [OF assms(1)])
  have order: "map fst ms = success_order"
    by (simp add: ms success_order_def numeral_3_eq_3)
  have quiet: "\<forall>m \<in> set (butlast ms). fst m = ''log'' \<or> fst m = ''progress''"
    by (simp add: ms)
  have before: "\<forall>k < length ms. \<not> install_button_enabled (drain w' (take k ms) ui)"
    using take_quiet [OF _ quiet] drain_quiet_button [of _ w' ui] assms(2) by blast
  have split: "ms = butlast ms @ [(''success'', ''Installation complete!'')]"
    by (simp add: ms)
  have after: "install_button_enabled (drain w' ms ui)"
    by (subst split) (simp add: drain_append success_enables_button)
  have logs: "log_text (drain w' (butlast ms) ui) =
        log_text ui @ map snd (filter (\<lambda>m. fst m = ''log'') ms)"
    using drain_log_text [OF quiet, of w' ui] by (simp add: ms)
  have label: "progress_label (drain w' (butlast ms) ui) = ''Installing dependencies...''"
    by (simp add: ms handle_message_def log_message_def update_progress_def)
  from order before after logs label show ?thesis
    unfolding ms_def by blast
qed

theorem gui_success_order_and_rendering_witness:
  "''success'' \<in> set (map fst (fst (run_installation (demo_world [] [] (3, 11, 2) []))))
   \<and> map fst (fst (run_installation (demo_world [] [] (3, 11, 2) []))) = success_order
   \<and> install_button_enabled
       (drain (demo_world [] [] (3, 11, 2) []) (fst (run_installation (demo_world [] [] (3, 11, 2) [])))
          (start_installation (InstallerGUI (demo_world [] [] (3, 11, 2) []))))"
proof -
  have h1: "''success'' \<in> set (map fst (fst (run_installation (demo_world [] [] (3, 11, 2) []))))"
    by code_simp
  have h2: "\<not> install_button_enabled (start_installation (InstallerGUI (demo_world [] [] (3, 11, 2) [])))"
    by (simp add: start_installation_def InstallerGUI_def)
  show ?thesis
    using h1 gui_success_order_and_rendering [OF h1 h2, of "demo_world [] [] (3, 11, 2) []"]
    by blast
qed

end
